theory Spec2Isabelle
  imports Complex_Main "HOL-Library.Word"
begin

section \<open>JavaScript numbers and the values a vital-sign field can hold\<close>

text \<open>
  A JavaScript number is an IEEE double: a finite value, one of the two infinities, or
  NaN. The relational operators compare finite doubles by their exact real values, so a
  finite double is modelled by the real number it denotes. Every comparison with NaN is
  false.
\<close>

datatype jsnum = NaN | NegInf | Fin real | PosInf

fun js_lt :: "jsnum \<Rightarrow> jsnum \<Rightarrow> bool" where
  "js_lt NaN _ = False"
| "js_lt _ NaN = False"
| "js_lt _ NegInf = False"
| "js_lt NegInf _ = True"
| "js_lt PosInf _ = False"
| "js_lt (Fin a) (Fin b) = (a < b)"
| "js_lt (Fin a) PosInf = True"

definition js_gt :: "jsnum \<Rightarrow> jsnum \<Rightarrow> bool" where
  "js_gt a b = js_lt b a"

fun js_le :: "jsnum \<Rightarrow> jsnum \<Rightarrow> bool" where
  "js_le NaN _ = False"
| "js_le _ NaN = False"
| "js_le NegInf _ = True"
| "js_le _ PosInf = True"
| "js_le PosInf _ = False"
| "js_le (Fin a) (Fin b) = (a \<le> b)"
| "js_le (Fin a) NegInf = False"

text \<open>
  The value handed to the classifier is typed \<open>number\<close>, but \<open>renderVitalCard\<close> takes
  it as \<open>any\<close> and passes the reading's field on unchanged: a number for the scalar
  kinds, the object \<open>{systolic, diastolic}\<close> for blood pressure.
\<close>

datatype js_value = JNum jsnum | JBloodPressure jsnum jsnum

text \<open>
  ToNumber, as the relational operators apply it to an operand. A plain object has no
  numeric primitive: it converts to the string \<open>[object Object]\<close> and from there to NaN.
\<close>

fun toNumber :: "js_value \<Rightarrow> jsnum" where
  "toNumber (JNum n) = n"
| "toNumber (JBloodPressure s d) = NaN"

text \<open>ToBoolean: 0 and NaN are falsy, every object is truthy.\<close>

fun truthy :: "js_value \<Rightarrow> bool" where
  "truthy (JNum n) = (n \<noteq> NaN \<and> n \<noteq> Fin 0)"
| "truthy (JBloodPressure s d) = True"

section \<open>The vital-sign classifier (VitalSignsTracker)\<close>

text \<open>The keys of the interface \<open>VitalSigns\<close>.\<close>

datatype vital_key =
    Timestamp | HeartRate | BloodPressure | Temperature
  | OxygenSaturation | BloodGlucose | Steps | SleepHours

datatype range = Range (range_min: real) (range_max: real)

datatype range_entry = Scalar_range range | BP_range (systolic: range) (diastolic: range)

text \<open>
  The table \<open>normalRanges\<close>; a key it does not have reads as \<open>undefined\<close>. The literals
  36.1 and 37.2 are not doubles: each stands for the double nearest to it, whose exact
  value is the fraction written here.
\<close>

fun normalRanges :: "vital_key \<Rightarrow> range_entry option" where
  "normalRanges HeartRate = Some (Scalar_range (Range 60 100))"
| "normalRanges BloodPressure = Some (BP_range (Range 90 140) (Range 60 90))"
| "normalRanges Temperature =
     Some (Scalar_range (Range (5080623329627341 / 140737488355328)
                               (2617717283409101 / 70368744177664)))"
| "normalRanges OxygenSaturation = Some (Scalar_range (Range 95 100))"
| "normalRanges BloodGlucose = Some (Scalar_range (Range 70 140))"
| "normalRanges Steps = Some (Scalar_range (Range 0 10000))"
| "normalRanges SleepHours = Some (Scalar_range (Range 7 9))"
| "normalRanges Timestamp = None"

datatype js_error = TypeError

text \<open>
  \<open>getVitalStatus\<close>. Reading \<open>systolic.max\<close> from an entry without a \<open>systolic\<close>
  member would throw; reading \<open>min\<close> from an entry without one yields \<open>undefined\<close>,
  which compares as NaN.
\<close>

definition getVitalStatus :: "vital_key \<Rightarrow> js_value \<Rightarrow> js_error + string" where
  "getVitalStatus type val =
     (case normalRanges type of
        None \<Rightarrow> Inr ''normal''
      | Some rng \<Rightarrow>
          if type = BloodPressure then
            (case rng of
               BP_range sys dia \<Rightarrow>
                 if js_gt (toNumber val) (Fin (range_max sys))
                    \<or> js_lt (toNumber val) (Fin (range_min sys))
                 then Inr ''warning'' else Inr ''normal''
             | Scalar_range r \<Rightarrow> Inl TypeError)
          else
            (case rng of
               Scalar_range r \<Rightarrow>
                 if js_lt (toNumber val) (Fin (range_min r))
                    \<or> js_gt (toNumber val) (Fin (range_max r))
                 then Inr ''warning'' else Inr ''normal''
             | BP_range sys dia \<Rightarrow> Inr ''normal''))"

definition getVitalColor :: "vital_key \<Rightarrow> js_value \<Rightarrow> js_error + string" where
  "getVitalColor type val =
     (case getVitalStatus type val of
        Inl e \<Rightarrow> Inl e
      | Inr status \<Rightarrow>
          Inr (if status = ''warning'' then ''text-red-600'' else ''text-green-600''))"

text \<open>What \<open>renderVitalCard\<close> computes for the card: the colour class and the badge.\<close>

record vital_card =
  card_color :: string
  card_status :: string
  badge_variant :: string
  badge_text :: string

definition renderVitalCard :: "vital_key \<Rightarrow> js_value \<Rightarrow> js_error + vital_card" where
  "renderVitalCard type val =
     (case getVitalColor type val of
        Inl e \<Rightarrow> Inl e
      | Inr color \<Rightarrow>
          (case getVitalStatus type val of
             Inl e \<Rightarrow> Inl e
           | Inr status \<Rightarrow>
               Inr \<lparr> card_color = color,
                     card_status = status,
                     badge_variant =
                       (if status = ''warning'' then ''destructive'' else ''secondary''),
                     badge_text = (if status = ''warning'' then ''Alert'' else ''Normal'') \<rparr>))"

section \<open>The page state (HomePage)\<close>

text \<open>
  Strings are lists of bytes. The three pictographs of the message texts are kept as the
  byte sequences the source file holds.
\<close>

definition newline :: string where
  "newline = [CHR 0x0A]"

definition bullet :: string where
  "bullet = [CHR 0xC3, CHR 0xA2, CHR 0xE2, CHR 0x82, CHR 0xAC, CHR 0xC2, CHR 0xA2]"

definition sad_face :: string where
  "sad_face = [CHR 0xC3, CHR 0xB0, CHR 0xC5, CHR 0xB8, CHR 0xCB, CHR 0x9C, CHR 0xE2, CHR 0x80, CHR 0x9D]"

definition check_mark :: string where
  "check_mark = [CHR 0xC3, CHR 0xA2, CHR 0xC5, CHR 0x93, CHR 0xE2, CHR 0x80, CHR 0xA6]"

text \<open>\<open>Array.prototype.join\<close> on an array of strings.\<close>

fun join :: "string \<Rightarrow> string list \<Rightarrow> string" where
  "join sep [] = []"
| "join sep [x] = x"
| "join sep (x # y # ys) = x @ sep @ join sep (y # ys)"

text \<open>The decimal rendering of a time stamp inside a template literal.\<close>

fun show_nat :: "nat \<Rightarrow> string" where
  "show_nat n =
     (if n < 10 then [char_of (48 + n)]
      else show_nat (n div 10) @ [char_of (48 + n mod 10)])"

declare show_nat.simps [simp del]

text \<open>ToBoolean of an optional string: \<open>undefined\<close> and the empty string are falsy.\<close>

fun truthy_str :: "string option \<Rightarrow> bool" where
  "truthy_str None = False"
| "truthy_str (Some s) = (s \<noteq> [])"

text \<open>
  An optional string under a truthiness test: the string where the member is truthy
  (present and not the empty string), nothing otherwise.
\<close>

definition if_truthy :: "string option \<Rightarrow> string option" where
  "if_truthy x = (if truthy_str x then x else None)"

datatype sender = User | AI

datatype feedback = Good | Bad

record ChatMessage =
  msg_id :: string
  msg_text :: string
  msg_sender :: sender
  msg_timestamp :: nat
  msg_isLoading :: "bool option"
  msg_feedback :: "feedback option"
  msg_isFollowUpPrompt :: "bool option"
  msg_originalQuestion :: "string option"

text \<open>A message literal that sets only the four required members.\<close>

definition mk_message :: "string \<Rightarrow> string \<Rightarrow> sender \<Rightarrow> nat \<Rightarrow> ChatMessage" where
  "mk_message i t sd ts =
     \<lparr> msg_id = i, msg_text = t, msg_sender = sd, msg_timestamp = ts,
       msg_isLoading = None, msg_feedback = None, msg_isFollowUpPrompt = None,
       msg_originalQuestion = None \<rparr>"

datatype gender = Male | Female | Other

text \<open>
  The ids and texts of messages are only built, compared and concatenated, so bytes do
  for them. A text of the profile is trimmed, and what \<open>trim\<close> strips is decided by
  the code units: it is a JavaScript string proper, a list of UTF-16 code units.
\<close>

type_synonym js_string = "16 word list"

record EmergencyContact =
  contact_name :: string
  contact_phone :: string
  contact_relationship :: string

record UserProfile =
  age :: "jsnum option"
  weight :: "jsnum option"
  height :: "jsnum option"
  gender :: "gender option"
  medicalHistory :: "js_string option"
  currentMedications :: "js_string option"
  allergies :: "js_string option"
  lifestyle :: "js_string option"
  symptoms :: "js_string option"
  emergencyContact :: "EmergencyContact option"

text \<open>\<open>AISuggestedKey = keyof UserProfile\<close>.\<close>

datatype profile_key =
    K_age | K_weight | K_height | K_gender | K_medicalHistory | K_currentMedications
  | K_allergies | K_lifestyle | K_symptoms | K_emergencyContact

text \<open>
  A reading is a JavaScript object over the keys of \<open>VitalSigns\<close>: the manual entry
  builds it with a computed key, so it is a map from keys to values.
\<close>

type_synonym VitalSigns = "vital_key \<rightharpoonup> js_value"

text \<open>The request and the response of the question-answering collaborator.\<close>

record ai_input =
  in_question :: string
  in_age :: "jsnum option"
  in_weight :: "jsnum option"
  in_height :: "jsnum option"
  in_gender :: "gender option"
  in_medicalHistory :: "js_string option"
  in_currentMedications :: "js_string option"
  in_allergies :: "js_string option"
  in_lifestyle :: "js_string option"
  in_symptoms :: "js_string option"
  in_vitalSigns :: "VitalSigns option"

record ai_output =
  answer :: string
  followUpQuestion :: "string option"
  suggestedKey :: "profile_key option"
  healthInsights :: "string list option"
  recommendations :: "string list option"

text \<open>The awaited call either resolves with a response or rejects.\<close>

datatype ai_outcome = Rejects | Resolves ai_output

record toast =
  toast_variant :: "string option"
  toast_title :: string
  toast_description :: string

text \<open>
  The state of the page: the \<open>useState\<close> cells the handlers below read or write, and
  two logs of what the handlers do to the outside, the toasts shown and the requests
  sent to the collaborator. Console output is not modelled.
\<close>

record page_state =
  messages :: "ChatMessage list"
  isLoading :: bool
  userProfile :: UserProfile
  vitalSigns :: "VitalSigns list"
  isProfileModalOpen :: bool
  currentAiFollowUpKey :: "profile_key option"
  lastUserQuestionForFollowUp :: "string option"
  toasts :: "toast list"
  ai_calls :: "ai_input list"

definition setMessages :: "(ChatMessage list \<Rightarrow> ChatMessage list) \<Rightarrow> page_state \<Rightarrow> page_state" where
  "setMessages f s = s\<lparr> messages := f (messages s) \<rparr>"

definition show_toast :: "toast \<Rightarrow> page_state \<Rightarrow> page_state" where
  "show_toast t s = s\<lparr> toasts := toasts s @ [t] \<rparr>"

subsection \<open>handleFeedback\<close>

definition handleFeedback :: "string \<Rightarrow> feedback \<Rightarrow> page_state \<Rightarrow> page_state" where
  "handleFeedback messageId fb s =
     setMessages
       (\<lambda>prevMessages.
          map (\<lambda>msg. if msg_id msg = messageId then msg\<lparr> msg_feedback := Some fb \<rparr> else msg)
              prevMessages)
       s"

subsection \<open>handleSubmitQuestion\<close>

text \<open>
  The handlers read the clock several times. \<open>clk k\<close> is what the handler's k-th call
  of \<open>Date.now()\<close> returns, counted from 0 along the path taken.
\<close>

definition latest_vitals :: "VitalSigns list \<Rightarrow> VitalSigns option" where
  "latest_vitals vs = (if length vs > 0 then Some (vs ! 0) else None)"

definition build_input :: "string \<Rightarrow> UserProfile \<Rightarrow> VitalSigns option \<Rightarrow> ai_input" where
  "build_input q prof latestVitals =
     \<lparr> in_question = q,
       in_age = age prof, in_weight = weight prof, in_height = height prof,
       in_gender = gender prof,
       in_medicalHistory = medicalHistory prof,
       in_currentMedications = currentMedications prof,
       in_allergies = allergies prof, in_lifestyle = lifestyle prof,
       in_symptoms = symptoms prof,
       in_vitalSigns = latestVitals \<rparr>"

text \<open>The two optional sections appended to an answer.\<close>

definition with_sections :: "string \<Rightarrow> ai_output \<Rightarrow> string" where
  "with_sections responseText result =
     (let t1 = (case healthInsights result of
                  Some ins \<Rightarrow>
                    if length ins > 0
                    then responseText @ newline @ newline @ ''**Health Insights:**'' @ newline
                           @ join newline (map (\<lambda>insight. bullet @ '' '' @ insight) ins)
                    else responseText
                | None \<Rightarrow> responseText)
      in (case recommendations result of
            Some recs \<Rightarrow>
              if length recs > 0
              then t1 @ newline @ newline @ ''**Recommendations:**'' @ newline
                     @ join newline (map (\<lambda>rec. bullet @ '' '' @ rec) recs)
              else t1
          | None \<Rightarrow> t1))"

text \<open>The part of the handler before the \<open>await\<close>: it returns the pending turn's id and
  the request, which it has sent.\<close>

definition submit_begin ::
  "(nat \<Rightarrow> nat) \<Rightarrow> string \<Rightarrow> page_state \<Rightarrow> string \<times> ai_input \<times> page_state" where
  "submit_begin clk question s =
     (let userMessage = mk_message (''user-'' @ show_nat (clk 0)) question User (clk 1);
          s1 = setMessages (\<lambda>prev. prev @ [userMessage]) s;
          s2 = s1\<lparr> isLoading := True \<rparr>;
          aiLoadingMessage =
            (mk_message (''ai-loading-'' @ show_nat (clk 2)) ''Thinking...'' AI (clk 3))
              \<lparr> msg_isLoading := Some True \<rparr>;
          s3 = setMessages (\<lambda>prev. prev @ [aiLoadingMessage]) s2;
          latestVitals = latest_vitals (vitalSigns s);
          input = build_input question (userProfile s) latestVitals
      in (msg_id aiLoadingMessage, input, s3\<lparr> ai_calls := ai_calls s3 @ [input] \<rparr>))"

text \<open>The \<open>try\<close> block after the call has resolved.\<close>

definition submit_resolved ::
  "(nat \<Rightarrow> nat) \<Rightarrow> string \<Rightarrow> string \<Rightarrow> ai_output \<Rightarrow> page_state \<Rightarrow> page_state" where
  "submit_resolved clk question loadingId result s =
     (let s1 = setMessages (filter (\<lambda>msg. msg_id msg \<noteq> loadingId)) s
      in case if_truthy (followUpQuestion result) of
           Some followUp \<Rightarrow>
             (let aiInfoMessageText =
                    (if answer result \<noteq> [] \<and> answer result \<noteq> followUp
                     then answer result
                     else ''To provide a more accurate response, I need a little more information.'');
                  aiInfoMessage =
                    mk_message (''ai-info-'' @ show_nat (clk 4)) aiInfoMessageText AI (clk 5);
                  s2 = setMessages (\<lambda>prev. prev @ [aiInfoMessage]) s1;
                  aiFollowUpMessage =
                    (mk_message (''ai-followup-prompt-'' @ show_nat (clk 6)) followUp AI (clk 7))
                      \<lparr> msg_isFollowUpPrompt := Some True \<rparr>;
                  s3 = setMessages (\<lambda>prev. prev @ [aiFollowUpMessage]) s2
              in s3\<lparr> currentAiFollowUpKey := suggestedKey result,
                     lastUserQuestionForFollowUp := Some question,
                     isProfileModalOpen := True \<rparr>)
         | None \<Rightarrow>
             (let responseText = with_sections (answer result) result;
                  aiResponseMessage =
                    mk_message (''ai-response-'' @ show_nat (clk 4)) responseText AI (clk 5)
              in setMessages (\<lambda>prev. prev @ [aiResponseMessage]) s1))"

text \<open>The \<open>catch\<close> block.\<close>

definition submit_rejected :: "(nat \<Rightarrow> nat) \<Rightarrow> string \<Rightarrow> page_state \<Rightarrow> page_state" where
  "submit_rejected clk loadingId s =
     (let s1 = setMessages (filter (\<lambda>msg. msg_id msg \<noteq> loadingId)) s;
          errorMessage =
            mk_message (''ai-error-'' @ show_nat (clk 4))
              (sad_face @ '' Sorry, I encountered an error. Please try again later.'') AI (clk 5);
          s2 = setMessages (\<lambda>prev. prev @ [errorMessage]) s1
      in show_toast \<lparr> toast_variant = Some ''destructive'', toast_title = ''Error'',
                      toast_description = ''Failed to get response from AI.'' \<rparr> s2)"

text \<open>
  The whole handler, run to completion against a collaborator \<open>ai\<close> with no other event
  in between. The \<open>finally\<close> block ends both paths.
\<close>

definition handleSubmitQuestion ::
  "(ai_input \<Rightarrow> ai_outcome) \<Rightarrow> (nat \<Rightarrow> nat) \<Rightarrow> string \<Rightarrow> page_state \<Rightarrow> page_state" where
  "handleSubmitQuestion ai clk question s =
     (case submit_begin clk question s of
        (loadingId, input, s1) \<Rightarrow>
          (let s2 = (case ai input of
                       Resolves result \<Rightarrow> submit_resolved clk question loadingId result s1
                     | Rejects \<Rightarrow> submit_rejected clk loadingId s1)
           in s2\<lparr> isLoading := False \<rparr>))"

subsection \<open>handleSaveProfile\<close>

text \<open>
  Without a pending follow-up the handler compares \<open>JSON.stringify(oldProfile)\<close> with
  \<open>JSON.stringify(newProfileData)\<close>. The two strings depend on the order in which the
  members of the two objects were created, which the record of a profile does not hold:
  two profiles with the same members can serialise differently. The handler therefore
  takes what the comparison \<open>!==\<close> gives as its first argument, \<open>serialisations_differ\<close>.
\<close>

definition save_begin ::
  "(nat \<Rightarrow> nat) \<Rightarrow> string \<Rightarrow> UserProfile \<Rightarrow> page_state \<Rightarrow> string \<times> ai_input \<times> page_state" where
  "save_begin clk pendingQuestion newProfileData s =
     (let latestVitals = latest_vitals (vitalSigns s);
          updatedInput = build_input pendingQuestion newProfileData latestVitals;
          profileUpdateMessage =
            (mk_message (''system-profile-updated-'' @ show_nat (clk 0))
               (check_mark @ '' Your information has been updated. I'' @ [CHR 0x27]
                  @ ''ll use this to refine my answer.'')
               AI (clk 1))
              \<lparr> msg_isFollowUpPrompt := Some True \<rparr>;
          s1 = setMessages (\<lambda>prev. prev @ [profileUpdateMessage]) s;
          s2 = s1\<lparr> isLoading := True \<rparr>;
          aiLoadingMessageId = ''ai-loading-refine-'' @ show_nat (clk 2);
          aiLoadingMessage =
            (mk_message aiLoadingMessageId ''Refining answer...'' AI (clk 3))
              \<lparr> msg_isLoading := Some True \<rparr>;
          s3 = setMessages (\<lambda>prev. prev @ [aiLoadingMessage]) s2
      in (aiLoadingMessageId, updatedInput, s3\<lparr> ai_calls := ai_calls s3 @ [updatedInput] \<rparr>))"

definition save_resolved ::
  "(nat \<Rightarrow> nat) \<Rightarrow> string \<Rightarrow> ai_output \<Rightarrow> page_state \<Rightarrow> page_state" where
  "save_resolved clk aiLoadingMessageId result s =
     (let s1 = setMessages (filter (\<lambda>msg. msg_id msg \<noteq> aiLoadingMessageId)) s;
          responseText =
            with_sections
              (if answer result \<noteq> [] then answer result
               else ''Thank you for the information. How else can I help you?'')
              result;
          aiResponseMessage =
            mk_message (''ai-refined-response-'' @ show_nat (clk 4)) responseText AI (clk 5);
          s2 = setMessages (\<lambda>prev. prev @ [aiResponseMessage]) s1
      in case if_truthy (followUpQuestion result) of
           Some followUp \<Rightarrow>
             (let aiFollowUpMessage =
                    (mk_message (''ai-refined-followup-'' @ show_nat (clk 6)) followUp AI (clk 7))
                      \<lparr> msg_isFollowUpPrompt := Some True \<rparr>;
                  s3 = setMessages (\<lambda>prev. prev @ [aiFollowUpMessage]) s2
              in show_toast
                   \<lparr> toast_variant = None, toast_title = ''Further Information Requested'',
                     toast_description =
                       ''The AI has another follow-up question. Please see the chat.'' \<rparr>
                   s3)
         | None \<Rightarrow> s2)"

definition save_rejected :: "(nat \<Rightarrow> nat) \<Rightarrow> string \<Rightarrow> page_state \<Rightarrow> page_state" where
  "save_rejected clk aiLoadingMessageId s =
     (let s1 = setMessages (filter (\<lambda>msg. msg_id msg \<noteq> aiLoadingMessageId)) s;
          errorMessage =
            mk_message (''ai-error-refine-'' @ show_nat (clk 4))
              (sad_face
                 @ '' Sorry, I encountered an error while refining the answer. Please try again.'')
              AI (clk 5);
          s2 = setMessages (\<lambda>prev. prev @ [errorMessage]) s1
      in show_toast \<lparr> toast_variant = Some ''destructive'', toast_title = ''Refinement Error'',
                      toast_description = ''Failed to get refined response from AI.'' \<rparr> s2)"

definition handleSaveProfile ::
  "bool \<Rightarrow> (ai_input \<Rightarrow> ai_outcome) \<Rightarrow> (nat \<Rightarrow> nat) \<Rightarrow> UserProfile
     \<Rightarrow> page_state \<Rightarrow> page_state" where
  "handleSaveProfile serialisations_differ ai clk newProfileData s =
     (let oldProfile = userProfile s;
          s0 = s\<lparr> userProfile := newProfileData, isProfileModalOpen := False \<rparr>
      in case if_truthy (lastUserQuestionForFollowUp s) of
           Some pendingQuestion \<Rightarrow>
             (case save_begin clk pendingQuestion newProfileData s0 of
                (aiLoadingMessageId, updatedInput, s1) \<Rightarrow>
                  (let s2 = (case ai updatedInput of
                               Resolves result \<Rightarrow> save_resolved clk aiLoadingMessageId result s1
                             | Rejects \<Rightarrow> save_rejected clk aiLoadingMessageId s1)
                   in s2\<lparr> isLoading := False,
                          lastUserQuestionForFollowUp := None,
                          currentAiFollowUpKey := None \<rparr>))
         | None \<Rightarrow>
             (let acknowledgementMessage =
                    mk_message (''system-profile-ack-'' @ show_nat (clk 0))
                      ''Your health information has been updated. How can I assist you now?''
                      AI (clk 1)
              in if serialisations_differ
                 then setMessages (\<lambda>prev. prev @ [acknowledgementMessage]) s0
                 else s0))"

subsection \<open>handleCloseProfileModal\<close>

datatype profile_value =
    P_number jsnum | P_string js_string | P_gender gender | P_contact EmergencyContact

text \<open>\<open>userProfile[key]\<close>; \<open>None\<close> is \<open>undefined\<close>.\<close>

fun profile_get :: "UserProfile \<Rightarrow> profile_key \<Rightarrow> profile_value option" where
  "profile_get p K_age = map_option P_number (age p)"
| "profile_get p K_weight = map_option P_number (weight p)"
| "profile_get p K_height = map_option P_number (height p)"
| "profile_get p K_gender = map_option P_gender (gender p)"
| "profile_get p K_medicalHistory = map_option P_string (medicalHistory p)"
| "profile_get p K_currentMedications = map_option P_string (currentMedications p)"
| "profile_get p K_allergies = map_option P_string (allergies p)"
| "profile_get p K_lifestyle = map_option P_string (lifestyle p)"
| "profile_get p K_symptoms = map_option P_string (symptoms p)"
| "profile_get p K_emergencyContact = map_option P_contact (emergencyContact p)"

text \<open>
  What \<open>String.prototype.trim\<close> strips from both ends: the white space of ECMAScript
  (tab, vertical tab, form feed, space, no-break space, the byte order mark U+FEFF and
  the space separators U+1680, U+2000 to U+200A, U+202F, U+205F, U+3000) and its line
  terminators (line feed, carriage return, U+2028, U+2029). All of them are single code
  units.
\<close>

definition is_space :: "16 word \<Rightarrow> bool" where
  "is_space c =
     (c = 0x0009 \<or> c = 0x000A \<or> c = 0x000B \<or> c = 0x000C \<or> c = 0x000D
      \<or> c = 0x0020 \<or> c = 0x00A0 \<or> c = 0x1680
      \<or> (0x2000 \<le> c \<and> c \<le> 0x200A)
      \<or> c = 0x2028 \<or> c = 0x2029 \<or> c = 0x202F \<or> c = 0x205F
      \<or> c = 0x3000 \<or> c = 0xFEFF)"

definition trim :: "js_string \<Rightarrow> js_string" where
  "trim str = rev (dropWhile is_space (rev (dropWhile is_space str)))"

text \<open>
  \<open>relevantProfileData && relevantProfileData.toString().trim() !== ''\<close>. A number is
  truthy unless it is 0 or NaN, and the string of a truthy number is not blank; a gender
  is one of three non-empty words; an object is truthy and prints as
  \<open>[object Object]\<close>.
\<close>

fun field_filled :: "profile_value option \<Rightarrow> bool" where
  "field_filled None = False"
| "field_filled (Some (P_number n)) = (n \<noteq> NaN \<and> n \<noteq> Fin 0)"
| "field_filled (Some (P_string str)) = (str \<noteq> [] \<and> trim str \<noteq> [])"
| "field_filled (Some (P_gender g)) = True"
| "field_filled (Some (P_contact c)) = True"

definition handleCloseProfileModal :: "(nat \<Rightarrow> nat) \<Rightarrow> page_state \<Rightarrow> page_state" where
  "handleCloseProfileModal clk s =
     (let s0 = s\<lparr> isProfileModalOpen := False \<rparr>;
          s1 = (case currentAiFollowUpKey s of
                  Some key \<Rightarrow>
                    if truthy_str (lastUserQuestionForFollowUp s) then
                      (let relevantProfileData = profile_get (userProfile s) key;
                           relevantProfileFieldFilled = field_filled relevantProfileData
                       in if \<not> relevantProfileFieldFilled then
                            (let cancelFollowUpMessage =
                                   (mk_message (''ai-cancel-followup-'' @ show_nat (clk 0))
                                      (''Okay, I understand. If you change your mind, you can ''
                                         @ ''update your info anytime. How else can I help you today?'')
                                      AI (clk 1))
                                     \<lparr> msg_isFollowUpPrompt := Some True \<rparr>
                             in setMessages (\<lambda>prev. prev @ [cancelFollowUpMessage]) s0)
                          else s0)
                    else s0
                | None \<Rightarrow> s0)
      in s1\<lparr> lastUserQuestionForFollowUp := None, currentAiFollowUpKey := None \<rparr>)"

subsection \<open>handleVitalSignsUpdate\<close>

definition handleVitalSignsUpdate :: "VitalSigns \<Rightarrow> page_state \<Rightarrow> page_state" where
  "handleVitalSignsUpdate newVitals s = s\<lparr> vitalSigns := newVitals # vitalSigns s \<rparr>"

section \<open>The manual entry of the tracker\<close>

text \<open>
  The tracker's own state. \<open>manualVitals\<close> is a \<open>Partial<VitalSigns>\<close>. The handler
  reports through the callback \<open>onVitalSignsUpdate\<close>, which the page binds to
  \<open>handleVitalSignsUpdate\<close>, and through the shared toaster.
\<close>

record tracker_state =
  isManualEntryOpen :: bool
  isGoogleFitConnected :: bool
  manualVitals :: VitalSigns
  selectedVitalType :: vital_key

text \<open>The keys of \<open>vitalSignsLabels\<close>, which are the items the type selector offers.\<close>

definition vitalSignsLabels_keys :: "vital_key list" where
  "vitalSignsLabels_keys =
     [HeartRate, BloodPressure, Temperature, OxygenSaturation, BloodGlucose, Steps, SleepHours]"

text \<open>ToBoolean of an optional member: \<open>undefined\<close> is falsy.\<close>

fun truthy_opt :: "js_value option \<Rightarrow> bool" where
  "truthy_opt None = False"
| "truthy_opt (Some v) = truthy v"

definition value_required :: toast where
  "value_required =
     \<lparr> toast_variant = Some ''destructive'', toast_title = ''Value Required'',
       toast_description = ''Please enter a value for the selected vital sign.'' \<rparr>"

definition vitals_updated :: toast where
  "vitals_updated =
     \<lparr> toast_variant = None, toast_title = ''Vital Signs Updated'',
       toast_description = ''Your vital signs have been recorded successfully.'' \<rparr>"

text \<open>
  \<open>handleManualEntry\<close>, at the time \<open>now\<close>. In the object literal the computed key
  comes second, so it would overwrite a first member of the same name.
\<close>

definition handleManualEntry ::
  "nat \<Rightarrow> tracker_state \<times> page_state \<Rightarrow> tracker_state \<times> page_state" where
  "handleManualEntry now st =
     (case st of (t, s) \<Rightarrow>
        if \<not> truthy_opt (manualVitals t (selectedVitalType t)) then
          (t, show_toast value_required s)
        else
          (let newVitals =
                 (Map.empty(Timestamp \<mapsto> JNum (Fin (real now))))
                   (selectedVitalType t := manualVitals t (selectedVitalType t));
               s1 = handleVitalSignsUpdate newVitals s;
               t1 = t\<lparr> isManualEntryOpen := False, manualVitals := Map.empty \<rparr>
           in (t1, show_toast vitals_updated s1)))"

section \<open>The reachable stores of readings\<close>

text \<open>
  The time stamp of a reading as a comparison reads it; a missing member is
  \<open>undefined\<close> and compares as NaN.
\<close>

definition reading_timestamp :: "VitalSigns \<Rightarrow> jsnum" where
  "reading_timestamp r = (case r Timestamp of Some v \<Rightarrow> toNumber v | None \<Rightarrow> NaN)"

text \<open>
  The page starts with an empty store, and the only writer is \<open>handleVitalSignsUpdate\<close>,
  which the tracker calls from \<open>handleManualEntry\<close> alone, with a selected type that is
  always an item of the selector. Each entry is stamped with what \<open>Date.now()\<close> returns
  at that moment, whatever that is.
\<close>

inductive reachable_vitals :: "VitalSigns list \<Rightarrow> bool" where
  start: "reachable_vitals []"
| entry: "reachable_vitals (vitalSigns s)
          \<Longrightarrow> selectedVitalType tr \<in> set vitalSignsLabels_keys
          \<Longrightarrow> reachable_vitals (vitalSigns (snd (handleManualEntry now (tr, s))))"

text \<open>
  The stores reached while the clock did not run backwards from one entry to the next;
  the first argument is the time of the last entry attempted.
\<close>

inductive entered_in_order :: "nat \<Rightarrow> VitalSigns list \<Rightarrow> bool" where
  start_in_order: "entered_in_order t0 []"
| entry_in_order: "entered_in_order t (vitalSigns s) \<Longrightarrow> t \<le> now
          \<Longrightarrow> selectedVitalType tr \<in> set vitalSignsLabels_keys
          \<Longrightarrow> entered_in_order now (vitalSigns (snd (handleManualEntry now (tr, s))))"

section \<open>Pending turns\<close>

text \<open>
  The ids of the two pending turns, \<open>ai-loading-<time>\<close> of a submission and
  \<open>ai-loading-refine-<time>\<close> of a refinement, are the only ids that begin with
  \<open>ai-loading-\<close>. A page holds no pending turn when no message id begins so.
\<close>

definition is_loading_id :: "string \<Rightarrow> bool" where
  "is_loading_id i = (take 11 i = ''ai-loading-'')"

definition no_pending :: "page_state \<Rightarrow> bool" where
  "no_pending s = list_all (\<lambda>m. \<not> is_loading_id (msg_id m)) (messages s)"

section \<open>Concrete states and collaborators\<close>

definition initialWelcomeMessage :: "nat \<Rightarrow> ChatMessage" where
  "initialWelcomeMessage t0 =
     mk_message ''welcome-message''
       (''Hello! I'' @ [CHR 0x27] @ ''m Med Genie, your AI health assistant. I can help you ''
          @ ''with health questions, track your vital signs, analyze prescriptions, and ''
          @ ''provide emergency support. How can I help you today?'')
       AI t0"

definition empty_profile :: UserProfile where
  "empty_profile =
     \<lparr> age = None, weight = None, height = None, gender = None, medicalHistory = None,
       currentMedications = None, allergies = None, lifestyle = None, symptoms = None,
       emergencyContact = None \<rparr>"

text \<open>The state the page is created with, at time \<open>t0\<close>.\<close>

definition initial_state :: "nat \<Rightarrow> page_state" where
  "initial_state t0 =
     \<lparr> messages = [initialWelcomeMessage t0], isLoading = False, userProfile = empty_profile,
       vitalSigns = [], isProfileModalOpen = False, currentAiFollowUpKey = None,
       lastUserQuestionForFollowUp = None, toasts = [], ai_calls = [] \<rparr>"

text \<open>The page while a follow-up about the age is pending.\<close>

definition pending_state :: page_state where
  "pending_state =
     (initial_state 0)
       \<lparr> currentAiFollowUpKey := Some K_age,
         lastUserQuestionForFollowUp := Some ''What should my blood pressure be?'',
         isProfileModalOpen := True \<rparr>"

text \<open>A tracker in which the heart rate 72 has been typed, and one in which 0 has.\<close>

definition typed_heartRate :: tracker_state where
  "typed_heartRate =
     \<lparr> isManualEntryOpen = True, isGoogleFitConnected = False,
       manualVitals = [HeartRate \<mapsto> JNum (Fin 72)], selectedVitalType = HeartRate \<rparr>"

definition typed_zero :: tracker_state where
  "typed_zero = typed_heartRate\<lparr> manualVitals := [HeartRate \<mapsto> JNum (Fin 0)] \<rparr>"

text \<open>The reading that entering the heart rate 72 at time \<open>t\<close> makes.\<close>

definition heartRate_reading :: "nat \<Rightarrow> VitalSigns" where
  "heartRate_reading t = [Timestamp \<mapsto> JNum (Fin (real t)), HeartRate \<mapsto> JNum (Fin 72)]"

text \<open>The page after two such entries, at the times 5000 and 6000.\<close>

definition two_entries_state :: page_state where
  "two_entries_state =
     snd (handleManualEntry 6000
            (typed_heartRate, snd (handleManualEntry 5000 (typed_heartRate, initial_state 0))))"

text \<open>The page after two such entries between which the clock was set back, from 9 to 7.\<close>

definition clock_back_state :: page_state where
  "clock_back_state =
     snd (handleManualEntry 7
            (typed_heartRate, snd (handleManualEntry 9 (typed_heartRate, initial_state 0))))"

text \<open>
  The page while a follow-up about the medical history is pending and that field holds a
  space, a no-break space and a tab.
\<close>

definition blank_history_state :: page_state where
  "blank_history_state =
     (initial_state 0)
       \<lparr> userProfile := empty_profile\<lparr> medicalHistory := Some [0x0020, 0x00A0, 0x0009] \<rparr>,
         currentAiFollowUpKey := Some K_medicalHistory,
         lastUserQuestionForFollowUp := Some ''What should my blood pressure be?'',
         isProfileModalOpen := True \<rparr>"

text \<open>The same page once the field holds the two letters \<open>ok\<close> between spaces.\<close>

definition filled_history_state :: page_state where
  "filled_history_state =
     blank_history_state
       \<lparr> userProfile := empty_profile\<lparr> medicalHistory := Some [0x0020, 0x006F, 0x006B, 0x0020] \<rparr> \<rparr>"

text \<open>Three collaborators: one asks for the age, one answers, one fails.\<close>

definition asks_for_age :: "ai_input \<Rightarrow> ai_outcome" where
  "asks_for_age input =
     Resolves \<lparr> answer = ''That depends on your age.'',
                followUpQuestion = Some ''What is your age?'',
                suggestedKey = Some K_age, healthInsights = None, recommendations = None \<rparr>"

definition answers_plainly :: "ai_input \<Rightarrow> ai_outcome" where
  "answers_plainly input =
     Resolves \<lparr> answer = ''Around 120/80.'', followUpQuestion = None,
                suggestedKey = None, healthInsights = None, recommendations = None \<rparr>"

definition always_rejects :: "ai_input \<Rightarrow> ai_outcome" where
  "always_rejects input = Rejects"

definition tick :: "nat \<Rightarrow> nat" where
  "tick k = 1000 + k"

section \<open>Properties of the classifier\<close>

lemma getVitalStatus_bloodPressure_object:
  "getVitalStatus BloodPressure (JBloodPressure s d) = Inr ''normal''"
  by (simp add: getVitalStatus_def js_gt_def)

lemma getVitalStatus_bloodPressure_number:
  "getVitalStatus BloodPressure (JNum (Fin x)) =
     Inr (if x < 90 \<or> 140 < x then ''warning'' else ''normal'')"
  by (auto simp add: getVitalStatus_def js_gt_def)

text \<open>
  C1. The claim is that the card of a blood-pressure reading shows a warning exactly when
  the systolic component is outside [90, 140], so that 150/70 is a warning. The card is
  rendered from the reading's \<open>bloodPressure\<close> object, which the classifier compares,
  as a whole, with the systolic bounds; both comparisons are false, and the card of 150/70
  shows the status normal.
\<close>

theorem renderVitalCard_bloodPressure_150_70:
  "renderVitalCard BloodPressure (JBloodPressure (Fin 150) (Fin 70)) =
     Inr \<lparr> card_color = ''text-green-600'', card_status = ''normal'',
           badge_variant = ''secondary'', badge_text = ''Normal'' \<rparr>"
  by (simp add: renderVitalCard_def getVitalColor_def getVitalStatus_bloodPressure_object)

text \<open>
  C7. For each scalar kind and every number, the status is warning exactly when the
  value is strictly below the kind's configured minimum or strictly above its configured
  maximum, and normal otherwise; a heart rate of 72 is normal and one of 45 is a warning.
\<close>

theorem getVitalStatus_scalar:
  assumes "type \<in> {HeartRate, Temperature, OxygenSaturation, BloodGlucose, Steps, SleepHours}"
  shows "\<exists>r. normalRanges type = Some (Scalar_range r)
           \<and> (getVitalStatus type (JNum v) = Inr ''warning''
                \<longleftrightarrow> js_lt v (Fin (range_min r)) \<or> js_gt v (Fin (range_max r)))
           \<and> (getVitalStatus type (JNum v) = Inr ''normal''
                \<longleftrightarrow> \<not> (js_lt v (Fin (range_min r)) \<or> js_gt v (Fin (range_max r))))
           \<and> normalRanges HeartRate = Some (Scalar_range (Range 60 100))
           \<and> getVitalStatus HeartRate (JNum (Fin 72)) = Inr ''normal''
           \<and> getVitalStatus HeartRate (JNum (Fin 45)) = Inr ''warning''"
proof -
  from assms consider "type = HeartRate" | "type = Temperature" | "type = OxygenSaturation"
    | "type = BloodGlucose" | "type = Steps" | "type = SleepHours"
    by auto
  then show ?thesis
    by cases (simp_all add: getVitalStatus_def js_gt_def)
qed

theorem getVitalStatus_scalar_witness:
  "HeartRate \<in> {HeartRate, Temperature, OxygenSaturation, BloodGlucose, Steps, SleepHours}
   \<and> getVitalStatus HeartRate (JNum (Fin 101)) = Inr ''warning''
   \<and> getVitalStatus HeartRate (JNum (Fin 100)) = Inr ''normal''
   \<and> getVitalStatus HeartRate (JNum (Fin 45)) = Inr ''warning''"
proof -
  have h: "HeartRate \<in> {HeartRate, Temperature, OxygenSaturation, BloodGlucose, Steps, SleepHours}"
    by simp
  from getVitalStatus_scalar [OF h, of "Fin 101"] getVitalStatus_scalar [OF h, of "Fin 100"]
  show ?thesis
    by (simp add: js_gt_def)
qed

text \<open>
  C10. The classifier is total: for every key and every value it returns, without
  throwing, the status normal or the status warning; for the key \<open>timestamp\<close>, which has
  no configured range, it returns normal.
\<close>

theorem getVitalStatus_total:
  "(getVitalStatus type val = Inr ''normal'' \<or> getVitalStatus type val = Inr ''warning'')
   \<and> getVitalStatus Timestamp val = Inr ''normal''"
  by (cases type) (simp_all add: getVitalStatus_def)

section \<open>Unfolding the handlers\<close>

lemmas submit_defs =
  handleSubmitQuestion_def submit_begin_def submit_resolved_def submit_rejected_def
  setMessages_def show_toast_def mk_message_def if_truthy_def Let_def

lemmas save_defs =
  handleSaveProfile_def save_begin_def save_resolved_def save_rejected_def
  setMessages_def show_toast_def mk_message_def if_truthy_def Let_def

lemmas example_defs =
  initial_state_def initialWelcomeMessage_def empty_profile_def pending_state_def
  asks_for_age_def answers_plainly_def always_rejects_def typed_heartRate_def
  blank_history_state_def filled_history_state_def

section \<open>Properties of the page handlers\<close>

text \<open>
  C9. \<open>handleFeedback\<close> keeps the length and the order of the message list and every
  member of every message, except that each message with the given id gets the given
  feedback; when no message has that id the state is unchanged. Nothing but the message
  list is written.
\<close>

theorem handleFeedback_frame:
  "length (messages (handleFeedback mid fb s)) = length (messages s)
   \<and> (\<forall>i < length (messages s).
         messages (handleFeedback mid fb s) ! i =
           (if msg_id (messages s ! i) = mid then (messages s ! i)\<lparr> msg_feedback := Some fb \<rparr>
            else messages s ! i))
   \<and> ((\<forall>m \<in> set (messages s). msg_id m \<noteq> mid) \<longrightarrow> handleFeedback mid fb s = s)
   \<and> handleFeedback mid fb s = s\<lparr> messages := messages (handleFeedback mid fb s) \<rparr>"
  by (simp add: handleFeedback_def setMessages_def map_idI)

text \<open>On the initial page: feedback on the welcome message, and on an id that is absent.\<close>

theorem handleFeedback_frame_witness:
  "messages (handleFeedback ''welcome-message'' Good (initial_state 0)) =
     [(initialWelcomeMessage 0)\<lparr> msg_feedback := Some Good \<rparr>]
   \<and> handleFeedback ''user-1000'' Bad (initial_state 0) = initial_state 0"
proof -
  have len: "length (messages (initial_state 0)) = 1"
    and at0: "messages (initial_state 0) ! 0 = initialWelcomeMessage 0"
    and wid: "msg_id (initialWelcomeMessage 0) = ''welcome-message''"
    by (simp_all add: initial_state_def initialWelcomeMessage_def mk_message_def)
  from handleFeedback_frame [of "''welcome-message''" Good "initial_state 0"] len at0 wid
  have "length (messages (handleFeedback ''welcome-message'' Good (initial_state 0))) = 1"
    and "messages (handleFeedback ''welcome-message'' Good (initial_state 0)) ! 0
           = (initialWelcomeMessage 0)\<lparr> msg_feedback := Some Good \<rparr>"
    by simp_all
  then have first: "messages (handleFeedback ''welcome-message'' Good (initial_state 0)) =
     [(initialWelcomeMessage 0)\<lparr> msg_feedback := Some Good \<rparr>]"
    by (cases "messages (handleFeedback ''welcome-message'' Good (initial_state 0))") simp_all
  have "\<forall>m \<in> set (messages (initial_state 0)). msg_id m \<noteq> ''user-1000''"
    by (simp add: initial_state_def initialWelcomeMessage_def mk_message_def)
  with handleFeedback_frame [of "''user-1000''" Bad "initial_state 0"]
  have "handleFeedback ''user-1000'' Bad (initial_state 0) = initial_state 0"
    by blast
  with first show ?thesis by simp
qed

text \<open>
  A follow-up request ends a submission with two assistant turns, not one: the
  informational turn and the follow-up prompt.
\<close>

theorem handleSubmitQuestion_followUp_counterexample:
  "map msg_sender
     (messages (handleSubmitQuestion asks_for_age tick ''What should my blood pressure be?''
        (initial_state 0)))
     = [AI, User, AI, AI]
   \<and> map msg_text
     (messages (handleSubmitQuestion asks_for_age tick ''What should my blood pressure be?''
        (initial_state 0)))
     = [msg_text (initialWelcomeMessage 0), ''What should my blood pressure be?'',
        ''That depends on your age.'', ''What is your age?'']
   \<and> length (messages (handleSubmitQuestion asks_for_age tick
        ''What should my blood pressure be?'' (initial_state 0)))
     = length (messages (initial_state 0)) + 3"
  by (simp add: submit_defs example_defs)

text \<open>
  C2, as the code has it. Run to completion, \<open>handleSubmitQuestion\<close> appends one user
  turn carrying the question and then the assistant turns that end the submission, none
  of them pending: one when the call rejects (the error turn) or resolves without a
  follow-up (the answer), two when the response asks a follow-up (the informational turn
  and the follow-up prompt). No turn with the pending turn's id is left, and a list that
  held no turn with that id is otherwise unchanged.
\<close>

theorem handleSubmitQuestion_turns:
  "\<exists>u ts.
     messages (handleSubmitQuestion ai clk question s) =
       filter (\<lambda>m. msg_id m \<noteq> ''ai-loading-'' @ show_nat (clk 2)) (messages s) @ u # ts
     \<and> msg_sender u = User \<and> msg_text u = question
     \<and> (\<forall>m \<in> set ts. msg_sender m = AI \<and> msg_isLoading m = None)
     \<and> length ts =
         (case ai (build_input question (userProfile s) (latest_vitals (vitalSigns s))) of
            Rejects \<Rightarrow> 1
          | Resolves result \<Rightarrow>
              (case if_truthy (followUpQuestion result) of None \<Rightarrow> 1 | Some followUp \<Rightarrow> 2))
     \<and> (\<forall>m \<in> set (messages (handleSubmitQuestion ai clk question s)).
           msg_id m \<noteq> ''ai-loading-'' @ show_nat (clk 2))
     \<and> ((\<forall>m \<in> set (messages s). msg_id m \<noteq> ''ai-loading-'' @ show_nat (clk 2))
          \<longrightarrow> messages (handleSubmitQuestion ai clk question s) = messages s @ u # ts)"
proof (cases "ai (build_input question (userProfile s) (latest_vitals (vitalSigns s)))")
  case Rejects
  then show ?thesis
    by (simp add: submit_defs filter_id_conv)
next
  case (Resolves result)
  show ?thesis
  proof (cases "if_truthy (followUpQuestion result)")
    case None
    with Resolves show ?thesis
      by (simp add: submit_defs filter_id_conv split: if_splits)
  next
    case (Some followUp)
    with Resolves show ?thesis
      by (simp add: submit_defs filter_id_conv split: if_splits)
  qed
qed

text \<open>The three outcomes on the initial page.\<close>

theorem handleSubmitQuestion_turns_witness:
  "''ai-loading-'' @ show_nat (tick 2) \<notin> set (map msg_id (messages (initial_state 0)))
   \<and> length (messages (handleSubmitQuestion asks_for_age tick ''What should my blood pressure be?''
         (initial_state 0))) = 4
   \<and> length (messages (handleSubmitQuestion answers_plainly tick ''What should my blood pressure be?''
         (initial_state 0))) = 3
   \<and> length (messages (handleSubmitQuestion always_rejects tick ''What should my blood pressure be?''
         (initial_state 0))) = 3"
proof -
  have fresh: "\<forall>m \<in> set (messages (initial_state 0)). msg_id m \<noteq> ''ai-loading-'' @ show_nat (tick 2)"
    by (simp add: example_defs mk_message_def)
  have len: "length (messages (initial_state 0)) = 1"
    by (simp add: example_defs)
  from handleSubmitQuestion_turns [of asks_for_age tick "''What should my blood pressure be?''" "initial_state 0"]
    fresh len
  have a: "length (messages (handleSubmitQuestion asks_for_age tick ''What should my blood pressure be?''
         (initial_state 0))) = 4"
    by (auto simp add: asks_for_age_def if_truthy_def)
  from handleSubmitQuestion_turns [of answers_plainly tick "''What should my blood pressure be?''" "initial_state 0"]
    fresh len
  have b: "length (messages (handleSubmitQuestion answers_plainly tick ''What should my blood pressure be?''
         (initial_state 0))) = 3"
    by (auto simp add: answers_plainly_def if_truthy_def)
  from handleSubmitQuestion_turns [of always_rejects tick "''What should my blood pressure be?''" "initial_state 0"]
    fresh len
  have c: "length (messages (handleSubmitQuestion always_rejects tick ''What should my blood pressure be?''
         (initial_state 0))) = 3"
    by (auto simp add: always_rejects_def)
  from fresh a b c show ?thesis by auto
qed

text \<open>
  C5. When the collaborator's call rejects, the pending turn is gone, the user turn and
  exactly one assistant turn with the generic failure message are appended, exactly one
  request has been sent, one destructive toast is shown, and the profile and the
  readings are as before.
\<close>

theorem handleSubmitQuestion_rejects:
  assumes "ai (build_input question (userProfile s) (latest_vitals (vitalSigns s))) = Rejects"
  shows "\<exists>u e.
     messages (handleSubmitQuestion ai clk question s) =
       filter (\<lambda>m. msg_id m \<noteq> ''ai-loading-'' @ show_nat (clk 2)) (messages s) @ [u, e]
     \<and> msg_sender u = User \<and> msg_text u = question
     \<and> msg_sender e = AI \<and> msg_isLoading e = None
     \<and> msg_text e = sad_face @ '' Sorry, I encountered an error. Please try again later.''
     \<and> (\<forall>m \<in> set (messages (handleSubmitQuestion ai clk question s)).
           msg_id m \<noteq> ''ai-loading-'' @ show_nat (clk 2))
     \<and> ((\<forall>m \<in> set (messages s). msg_id m \<noteq> ''ai-loading-'' @ show_nat (clk 2))
          \<longrightarrow> messages (handleSubmitQuestion ai clk question s) = messages s @ [u, e])
     \<and> ai_calls (handleSubmitQuestion ai clk question s) =
         ai_calls s @ [build_input question (userProfile s) (latest_vitals (vitalSigns s))]
     \<and> toasts (handleSubmitQuestion ai clk question s) =
         toasts s @ [\<lparr> toast_variant = Some ''destructive'', toast_title = ''Error'',
                       toast_description = ''Failed to get response from AI.'' \<rparr>]
     \<and> userProfile (handleSubmitQuestion ai clk question s) = userProfile s
     \<and> vitalSigns (handleSubmitQuestion ai clk question s) = vitalSigns s
     \<and> isLoading (handleSubmitQuestion ai clk question s) = False"
  using assms by (simp add: submit_defs filter_id_conv)

text \<open>A failing collaborator on the initial page.\<close>

theorem handleSubmitQuestion_rejects_witness:
  "always_rejects (build_input ''Is 72 bpm fine?'' (userProfile (initial_state 0))
       (latest_vitals (vitalSigns (initial_state 0)))) = Rejects
   \<and> map msg_text (messages (handleSubmitQuestion always_rejects tick ''Is 72 bpm fine?'' (initial_state 0)))
       = [msg_text (initialWelcomeMessage 0), ''Is 72 bpm fine?'',
          sad_face @ '' Sorry, I encountered an error. Please try again later.'']
   \<and> length (ai_calls (handleSubmitQuestion always_rejects tick ''Is 72 bpm fine?'' (initial_state 0))) = 1
   \<and> length (toasts (handleSubmitQuestion always_rejects tick ''Is 72 bpm fine?'' (initial_state 0))) = 1
   \<and> userProfile (handleSubmitQuestion always_rejects tick ''Is 72 bpm fine?'' (initial_state 0)) = empty_profile
   \<and> vitalSigns (handleSubmitQuestion always_rejects tick ''Is 72 bpm fine?'' (initial_state 0)) = []"
proof -
  have h: "always_rejects (build_input ''Is 72 bpm fine?'' (userProfile (initial_state 0))
       (latest_vitals (vitalSigns (initial_state 0)))) = Rejects"
    by (simp add: always_rejects_def)
  have fresh: "\<forall>m \<in> set (messages (initial_state 0)). msg_id m \<noteq> ''ai-loading-'' @ show_nat (tick 2)"
    by (simp add: example_defs mk_message_def)
  have init: "messages (initial_state 0) = [initialWelcomeMessage 0]" "ai_calls (initial_state 0) = []"
    "toasts (initial_state 0) = []" "userProfile (initial_state 0) = empty_profile"
    "vitalSigns (initial_state 0) = []"
    by (simp_all add: initial_state_def)
  from handleSubmitQuestion_rejects
         [where ai = always_rejects and question = "''Is 72 bpm fine?''"
            and s = "initial_state 0" and clk = tick, OF h]
    fresh init h
  show ?thesis
    by auto
qed

text \<open>
  A submission whose response asks a follow-up leaves the follow-up pending: it remembers
  the question as submitted and the suggested key, and opens the editor.
\<close>

lemma handleSubmitQuestion_sets_pending:
  assumes "ai (build_input question (userProfile s) (latest_vitals (vitalSigns s))) = Resolves result"
    and "followUpQuestion result = Some followUp" and "followUp \<noteq> []"
  shows "lastUserQuestionForFollowUp (handleSubmitQuestion ai clk question s) = Some question
       \<and> currentAiFollowUpKey (handleSubmitQuestion ai clk question s) = suggestedKey result
       \<and> isProfileModalOpen (handleSubmitQuestion ai clk question s)"
  using assms by (simp add: submit_defs)

text \<open>
  C4. A save made while a follow-up is pending (the remembered question is a non-empty
  string) leaves both the remembered question and the suggested key undefined, whatever
  the refine call does.
\<close>

theorem handleSaveProfile_clears_pending:
  assumes "lastUserQuestionForFollowUp s = Some q" and "q \<noteq> []"
  shows "lastUserQuestionForFollowUp (handleSaveProfile serialisations_differ ai clk newProfileData s) = None
       \<and> currentAiFollowUpKey (handleSaveProfile serialisations_differ ai clk newProfileData s) = None"
  using assms by (simp add: save_defs split: ai_outcome.split option.split)

text \<open>Saving the age 34 while the age is asked for, with a call that resolves and one that rejects.\<close>

theorem handleSaveProfile_clears_pending_witness:
  "lastUserQuestionForFollowUp pending_state = Some ''What should my blood pressure be?''
   \<and> currentAiFollowUpKey pending_state = Some K_age
   \<and> lastUserQuestionForFollowUp
        (handleSaveProfile True answers_plainly tick (empty_profile\<lparr> age := Some (Fin 34) \<rparr>)
           pending_state) = None
   \<and> currentAiFollowUpKey
        (handleSaveProfile True answers_plainly tick (empty_profile\<lparr> age := Some (Fin 34) \<rparr>)
           pending_state) = None
   \<and> lastUserQuestionForFollowUp
        (handleSaveProfile True always_rejects tick (empty_profile\<lparr> age := Some (Fin 34) \<rparr>)
           pending_state) = None
   \<and> currentAiFollowUpKey
        (handleSaveProfile True always_rejects tick (empty_profile\<lparr> age := Some (Fin 34) \<rparr>)
           pending_state) = None"
proof -
  have h: "lastUserQuestionForFollowUp pending_state = Some ''What should my blood pressure be?''"
    and k: "currentAiFollowUpKey pending_state = Some K_age"
    by (simp_all add: pending_state_def)
  have ne: "''What should my blood pressure be?'' \<noteq> []"
    by simp
  from handleSaveProfile_clears_pending [OF h ne, of True answers_plainly tick]
    handleSaveProfile_clears_pending [OF h ne, of True always_rejects tick] h k
  show ?thesis by simp
qed

text \<open>
  \<open>trim\<close> leaves nothing exactly of the strings that are white space throughout, so a
  field counts as filled when it is a number other than 0 and NaN, a text with a
  character that is not white space, a gender or a contact.
\<close>

lemma trim_empty_iff: "trim str = [] \<longleftrightarrow> (\<forall>c \<in> set str. is_space c)"
proof -
  have "(\<forall>x \<in> set (dropWhile is_space str). is_space x) \<longleftrightarrow> dropWhile is_space str = []"
  proof
    assume all: "\<forall>x \<in> set (dropWhile is_space str). is_space x"
    show "dropWhile is_space str = []"
    proof (rule ccontr)
      assume ne: "dropWhile is_space str \<noteq> []"
      then have "\<not> is_space (hd (dropWhile is_space str))"
        by (rule hd_dropWhile)
      moreover from ne have "hd (dropWhile is_space str) \<in> set (dropWhile is_space str)"
        by simp
      ultimately show False
        using all by blast
    qed
  next
    assume e: "dropWhile is_space str = []"
    show "\<forall>x \<in> set (dropWhile is_space str). is_space x"
      unfolding e by simp
  qed
  then show ?thesis
    by (simp add: trim_def dropWhile_eq_Nil_conv)
qed

lemma field_filled_iff:
  "field_filled v \<longleftrightarrow>
     (case v of
        None \<Rightarrow> False
      | Some (P_number n) \<Rightarrow> n \<noteq> NaN \<and> n \<noteq> Fin 0
      | Some (P_string str) \<Rightarrow> \<exists>c \<in> set str. \<not> is_space c
      | Some (P_gender g) \<Rightarrow> True
      | Some (P_contact c) \<Rightarrow> True)"
  by (auto simp add: trim_empty_iff split: option.split profile_value.split)

text \<open>
  C6. Closing the editor while a follow-up is pending and the field named by the pending
  key is still empty (by the handler's test: undefined, 0, NaN, or a text that is empty
  or white space throughout) appends exactly one assistant turn with the neutral text,
  clears the pending follow-up, and sends nothing to the collaborator.
\<close>

theorem handleCloseProfileModal_cancel:
  assumes "lastUserQuestionForFollowUp s = Some q" and "q \<noteq> []"
    and "currentAiFollowUpKey s = Some key"
    and "\<not> field_filled (profile_get (userProfile s) key)"
  shows "\<exists>m. messages (handleCloseProfileModal clk s) = messages s @ [m]
           \<and> msg_sender m = AI
           \<and> msg_text m = ''Okay, I understand. If you change your mind, you can ''
                @ ''update your info anytime. How else can I help you today?''
           \<and> lastUserQuestionForFollowUp (handleCloseProfileModal clk s) = None
           \<and> currentAiFollowUpKey (handleCloseProfileModal clk s) = None
           \<and> ai_calls (handleCloseProfileModal clk s) = ai_calls s
           \<and> isProfileModalOpen (handleCloseProfileModal clk s) = False"
  using assms by (simp add: handleCloseProfileModal_def setMessages_def mk_message_def Let_def)

text \<open>
  Cancelling while the medical history is asked for and holds only a space, a no-break
  space and a tab; and cancelling while the age is asked for and the profile is empty.
\<close>

theorem handleCloseProfileModal_cancel_witness:
  "lastUserQuestionForFollowUp blank_history_state = Some ''What should my blood pressure be?''
   \<and> currentAiFollowUpKey blank_history_state = Some K_medicalHistory
   \<and> profile_get (userProfile blank_history_state) K_medicalHistory
        = Some (P_string [0x0020, 0x00A0, 0x0009])
   \<and> trim [0x0020, 0x00A0, 0x0009] = []
   \<and> length (messages (handleCloseProfileModal tick blank_history_state)) = 2
   \<and> lastUserQuestionForFollowUp (handleCloseProfileModal tick blank_history_state) = None
   \<and> currentAiFollowUpKey (handleCloseProfileModal tick blank_history_state) = None
   \<and> ai_calls (handleCloseProfileModal tick blank_history_state) = []
   \<and> profile_get (userProfile pending_state) K_age = None
   \<and> length (messages (handleCloseProfileModal tick pending_state)) = 2
   \<and> lastUserQuestionForFollowUp (handleCloseProfileModal tick pending_state) = None
   \<and> currentAiFollowUpKey (handleCloseProfileModal tick pending_state) = None
   \<and> ai_calls (handleCloseProfileModal tick pending_state) = []"
proof -
  have ne: "''What should my blood pressure be?'' \<noteq> []"
    by simp
  have tr: "trim [0x0020, 0x00A0, 0x0009] = []"
    by (simp add: trim_def is_space_def)
  have bh: "lastUserQuestionForFollowUp blank_history_state = Some ''What should my blood pressure be?''"
    and bk: "currentAiFollowUpKey blank_history_state = Some K_medicalHistory"
    and be: "profile_get (userProfile blank_history_state) K_medicalHistory
               = Some (P_string [0x0020, 0x00A0, 0x0009])"
    and bm: "length (messages blank_history_state) = 1" and bc: "ai_calls blank_history_state = []"
    by (simp_all add: blank_history_state_def initial_state_def empty_profile_def)
  have unfilled: "\<not> field_filled (profile_get (userProfile blank_history_state) K_medicalHistory)"
    unfolding be by (simp add: tr)
  from handleCloseProfileModal_cancel [OF bh ne bk unfilled, of tick] bm bc
  have blank: "length (messages (handleCloseProfileModal tick blank_history_state)) = 2
     \<and> lastUserQuestionForFollowUp (handleCloseProfileModal tick blank_history_state) = None
     \<and> currentAiFollowUpKey (handleCloseProfileModal tick blank_history_state) = None
     \<and> ai_calls (handleCloseProfileModal tick blank_history_state) = []"
    by auto
  have h: "lastUserQuestionForFollowUp pending_state = Some ''What should my blood pressure be?''"
    and k: "currentAiFollowUpKey pending_state = Some K_age"
    and e: "profile_get (userProfile pending_state) K_age = None"
    and m: "length (messages pending_state) = 1" and c: "ai_calls pending_state = []"
    by (simp_all add: pending_state_def initial_state_def empty_profile_def)
  have nf: "\<not> field_filled (profile_get (userProfile pending_state) K_age)"
    unfolding e by simp
  from handleCloseProfileModal_cancel [OF h ne k nf, of tick] m c
  have undefined_age: "length (messages (handleCloseProfileModal tick pending_state)) = 2
     \<and> lastUserQuestionForFollowUp (handleCloseProfileModal tick pending_state) = None
     \<and> currentAiFollowUpKey (handleCloseProfileModal tick pending_state) = None
     \<and> ai_calls (handleCloseProfileModal tick pending_state) = []"
    by auto
  from bh bk be tr blank e undefined_age show ?thesis
    by simp
qed

text \<open>
  When the field is filled, closing the editor appends nothing; so it is on the page
  whose medical history reads \<open>ok\<close> between two spaces.
\<close>

lemma handleCloseProfileModal_filled:
  assumes "field_filled (profile_get (userProfile s) key)"
    and "currentAiFollowUpKey s = Some key"
  shows "messages (handleCloseProfileModal clk s) = messages s
       \<and> lastUserQuestionForFollowUp (handleCloseProfileModal clk s) = None
       \<and> currentAiFollowUpKey (handleCloseProfileModal clk s) = None"
  using assms by (simp add: handleCloseProfileModal_def setMessages_def Let_def)

lemma filled_example:
  "field_filled (profile_get (userProfile filled_history_state) K_medicalHistory)"
  "messages (handleCloseProfileModal tick filled_history_state) = messages filled_history_state"
  by (simp_all add: example_defs trim_def is_space_def handleCloseProfileModal_def setMessages_def Let_def)

section \<open>Properties of the manual entry and of the latest reading\<close>

text \<open>
  C8. A manual entry changes the store of readings only when the value typed for the
  selected kind is present and not zero: a missing value, 0 and NaN are rejected with the
  validation toast and change neither the store nor the tracker. An accepted entry, for a
  kind the selector offers, puts exactly one new reading in front of the store, holding
  the current time as its time stamp and the selected measurement and nothing else.
\<close>

theorem handleManualEntry_store:
  "(manualVitals t (selectedVitalType t) = None
      \<or> manualVitals t (selectedVitalType t) = Some (JNum (Fin 0))
      \<or> manualVitals t (selectedVitalType t) = Some (JNum NaN)
    \<longrightarrow> vitalSigns (snd (handleManualEntry now (t, s))) = vitalSigns s
        \<and> toasts (snd (handleManualEntry now (t, s))) = toasts s @ [value_required]
        \<and> fst (handleManualEntry now (t, s)) = t)
   \<and> (vitalSigns (snd (handleManualEntry now (t, s))) \<noteq> vitalSigns s
    \<longrightarrow> (\<exists>entered. manualVitals t (selectedVitalType t) = Some entered
           \<and> entered \<noteq> JNum (Fin 0)))
   \<and> (\<forall>entered. manualVitals t (selectedVitalType t) = Some entered \<and> truthy entered
          \<and> selectedVitalType t \<in> set vitalSignsLabels_keys
    \<longrightarrow> (\<exists>r. vitalSigns (snd (handleManualEntry now (t, s))) = r # vitalSigns s
           \<and> r Timestamp = Some (JNum (Fin (real now)))
           \<and> r (selectedVitalType t) = Some entered
           \<and> dom r = {Timestamp, selectedVitalType t}))"
proof (cases "manualVitals t (selectedVitalType t)")
  case None
  then show ?thesis
    by (simp add: handleManualEntry_def show_toast_def)
next
  case (Some entered)
  show ?thesis
  proof (cases "truthy entered")
    case False
    with Some show ?thesis
      by (simp add: handleManualEntry_def show_toast_def)
  next
    case True
    then have "entered \<noteq> JNum (Fin 0)" and "entered \<noteq> JNum NaN"
      by auto
    with Some True show ?thesis
      by (auto simp add: handleManualEntry_def handleVitalSignsUpdate_def show_toast_def
            vitalSignsLabels_keys_def Let_def)
  qed
qed

text \<open>Entering the heart rate 72, and entering 0, on the initial page at time 5000.\<close>

theorem handleManualEntry_store_witness:
  "vitalSigns (snd (handleManualEntry 5000 (typed_heartRate, initial_state 0))) =
     [[Timestamp \<mapsto> JNum (Fin 5000), HeartRate \<mapsto> JNum (Fin 72)]]
   \<and> vitalSigns (snd (handleManualEntry 5000 (typed_zero, initial_state 0))) = []
   \<and> toasts (snd (handleManualEntry 5000 (typed_zero, initial_state 0))) = [value_required]"
proof -
  have sel: "selectedVitalType typed_heartRate = HeartRate" "selectedVitalType typed_zero = HeartRate"
    and typed: "manualVitals typed_heartRate HeartRate = Some (JNum (Fin 72))"
    and zero: "manualVitals typed_zero HeartRate = Some (JNum (Fin 0))"
    and init: "vitalSigns (initial_state 0) = []" "toasts (initial_state 0) = []"
    by (simp_all add: typed_heartRate_def typed_zero_def initial_state_def)
  have item: "HeartRate \<in> set vitalSignsLabels_keys"
    by (simp add: vitalSignsLabels_keys_def)
  from handleManualEntry_store [of typed_heartRate 5000 "initial_state 0"] sel typed init item
  obtain r where r: "vitalSigns (snd (handleManualEntry 5000 (typed_heartRate, initial_state 0))) = [r]"
    and rt: "r Timestamp = Some (JNum (Fin 5000))" and rh: "r HeartRate = Some (JNum (Fin 72))"
    and rd: "dom r = {Timestamp, HeartRate}"
    by auto
  have "r = [Timestamp \<mapsto> JNum (Fin 5000), HeartRate \<mapsto> JNum (Fin 72)]"
  proof
    fix k show "r k = [Timestamp \<mapsto> JNum (Fin 5000), HeartRate \<mapsto> JNum (Fin 72)] k"
      using rt rh rd by (cases "k = Timestamp \<or> k = HeartRate") auto
  qed
  with r have a: "vitalSigns (snd (handleManualEntry 5000 (typed_heartRate, initial_state 0))) =
     [[Timestamp \<mapsto> JNum (Fin 5000), HeartRate \<mapsto> JNum (Fin 72)]]"
    by simp
  from handleManualEntry_store [of typed_zero 5000 "initial_state 0"] sel zero init
  have "vitalSigns (snd (handleManualEntry 5000 (typed_zero, initial_state 0))) = []"
    and "toasts (snd (handleManualEntry 5000 (typed_zero, initial_state 0))) = [value_required]"
    by simp_all
  with a show ?thesis by simp
qed

text \<open>
  A store entered in order is a reachable one; each of its readings carries a time stamp
  no later than the last entry, and it is ordered newest first.
\<close>

lemma entered_in_order_reachable:
  "entered_in_order t vs \<Longrightarrow> reachable_vitals vs"
  by (induction rule: entered_in_order.induct) (auto intro: reachable_vitals.intros)

lemma entered_in_order_sorted:
  assumes "entered_in_order t vs"
  shows "(\<forall>x \<in> set vs. \<exists>n \<le> t. reading_timestamp x = Fin (real n))
       \<and> sorted_wrt (\<lambda>a b. js_le (reading_timestamp b) (reading_timestamp a)) vs"
  using assms
proof (induction rule: entered_in_order.induct)
  case (start_in_order t0)
  show ?case by simp
next
  case (entry_in_order t s now tr)
  show ?case
  proof (cases "vitalSigns (snd (handleManualEntry now (tr, s))) = vitalSigns s")
    case True
    with entry_in_order show ?thesis
      by (metis le_trans)
  next
    case False
    have key: "selectedVitalType tr \<noteq> Timestamp"
      using entry_in_order.hyps(3) by (auto simp add: vitalSignsLabels_keys_def)
    from False obtain r where r: "vitalSigns (snd (handleManualEntry now (tr, s))) = r # vitalSigns s"
      and ts: "reading_timestamp r = Fin (real now)"
      using key
      by (auto simp add: handleManualEntry_def handleVitalSignsUpdate_def show_toast_def
            reading_timestamp_def Let_def split: if_splits)
    have older: "\<forall>x \<in> set (vitalSigns s). js_le (reading_timestamp x) (reading_timestamp r)"
    proof
      fix x assume "x \<in> set (vitalSigns s)"
      with entry_in_order.IH obtain n where "n \<le> t" "reading_timestamp x = Fin (real n)"
        by blast
      with entry_in_order.hyps(2) ts show "js_le (reading_timestamp x) (reading_timestamp r)"
        by simp
    qed
    have bound: "\<forall>x \<in> set (vitalSigns s). \<exists>n \<le> now. reading_timestamp x = Fin (real n)"
      using entry_in_order.IH entry_in_order.hyps(2) by (meson le_trans)
    from r ts older bound entry_in_order.IH show ?thesis
      by auto
  qed
qed

text \<open>Entering the heart rate 72 puts this reading in front of the store.\<close>

lemma heartRate_entry:
  "vitalSigns (snd (handleManualEntry now (typed_heartRate, s))) = heartRate_reading now # vitalSigns s"
  "ai_calls (snd (handleManualEntry now (typed_heartRate, s))) = ai_calls s"
  by (simp_all add: handleManualEntry_def handleVitalSignsUpdate_def show_toast_def
        typed_heartRate_def heartRate_reading_def Let_def)

lemma heartRate_reading_timestamp: "reading_timestamp (heartRate_reading t) = Fin (real t)"
  by (simp add: reading_timestamp_def heartRate_reading_def)

text \<open>
  The store after entries stamped 9 and then 7 is reachable, and on it the request
  carries the reading stamped 7 while the store holds one stamped 9.
\<close>

theorem handleSubmitQuestion_latest_vitals_counterexample:
  "reachable_vitals (vitalSigns clock_back_state)
   \<and> vitalSigns clock_back_state = [heartRate_reading 7, heartRate_reading 9]
   \<and> map in_vitalSigns
        (ai_calls (handleSubmitQuestion answers_plainly tick ''Is 72 bpm fine?'' clock_back_state))
       = [Some (heartRate_reading 7)]
   \<and> reading_timestamp (heartRate_reading 7) = Fin 7
   \<and> reading_timestamp (heartRate_reading 9) = Fin 9
   \<and> js_lt (reading_timestamp (heartRate_reading 7)) (reading_timestamp (heartRate_reading 9))
   \<and> \<not> js_le (reading_timestamp (heartRate_reading 9)) (reading_timestamp (heartRate_reading 7))"
proof -
  have item: "selectedVitalType typed_heartRate \<in> set vitalSignsLabels_keys"
    by (simp add: typed_heartRate_def vitalSignsLabels_keys_def)
  have init: "vitalSigns (initial_state 0) = []" "ai_calls (initial_state 0) = []"
    by (simp_all add: initial_state_def)
  have r0: "reachable_vitals (vitalSigns (initial_state 0))"
    unfolding init by (rule reachable_vitals.start)
  have r1: "reachable_vitals (vitalSigns (snd (handleManualEntry 9 (typed_heartRate, initial_state 0))))"
    by (rule reachable_vitals.entry [OF r0 item])
  have r2: "reachable_vitals (vitalSigns clock_back_state)"
    unfolding clock_back_state_def by (rule reachable_vitals.entry [OF r1 item])
  have store: "vitalSigns clock_back_state = [heartRate_reading 7, heartRate_reading 9]"
    and calls: "ai_calls clock_back_state = []"
    by (simp_all add: clock_back_state_def heartRate_entry init)
  have sent: "map in_vitalSigns
        (ai_calls (handleSubmitQuestion answers_plainly tick ''Is 72 bpm fine?'' clock_back_state))
       = [Some (heartRate_reading 7)]"
    by (simp add: submit_defs answers_plainly_def build_input_def latest_vitals_def store calls)
  from r2 store sent show ?thesis
    by (simp add: heartRate_reading_timestamp)
qed

text \<open>
  C3, as the code has it. The request \<open>handleSubmitQuestion\<close> sends carries no reading
  when the store is empty and otherwise the first reading of the store, which is the one
  entered last. Where the clock did not run backwards from one entry to the next, that
  reading is one whose time stamp is at least that of every reading of the store.
\<close>

theorem handleSubmitQuestion_latest_vitals:
  "\<exists>input.
     ai_calls (handleSubmitQuestion ai clk question s) = ai_calls s @ [input]
     \<and> in_question input = question
     \<and> (vitalSigns s = [] \<longrightarrow> in_vitalSigns input = None)
     \<and> (\<forall>r older. vitalSigns s = r # older \<longrightarrow> in_vitalSigns input = Some r)
     \<and> (entered_in_order t (vitalSigns s) \<longrightarrow>
          (\<forall>r. in_vitalSigns input = Some r \<longrightarrow>
             r \<in> set (vitalSigns s)
             \<and> (\<forall>x \<in> set (vitalSigns s).
                   js_le (reading_timestamp x) (reading_timestamp r))))"
proof -
  let ?input = "build_input question (userProfile s) (latest_vitals (vitalSigns s))"
  have calls: "ai_calls (handleSubmitQuestion ai clk question s) = ai_calls s @ [?input]"
    by (simp add: submit_defs split: ai_outcome.split option.split)
  have q: "in_question ?input = question"
    by (simp add: build_input_def)
  have none: "vitalSigns s = [] \<longrightarrow> in_vitalSigns ?input = None"
    by (simp add: build_input_def latest_vitals_def)
  have head: "\<forall>r older. vitalSigns s = r # older \<longrightarrow> in_vitalSigns ?input = Some r"
    by (simp add: build_input_def latest_vitals_def)
  have newest: "entered_in_order t (vitalSigns s) \<longrightarrow>
          (\<forall>r. in_vitalSigns ?input = Some r \<longrightarrow>
             r \<in> set (vitalSigns s)
             \<and> (\<forall>x \<in> set (vitalSigns s).
                   js_le (reading_timestamp x) (reading_timestamp r)))"
  proof (intro impI allI)
    fix r
    assume ord: "entered_in_order t (vitalSigns s)" and sent: "in_vitalSigns ?input = Some r"
    from sent obtain older where vs: "vitalSigns s = r # older"
      by (cases "vitalSigns s") (simp_all add: build_input_def latest_vitals_def)
    from entered_in_order_sorted [OF ord] vs
    have fin: "\<exists>n. reading_timestamp r = Fin (real n)"
      and rest: "\<forall>x \<in> set older. js_le (reading_timestamp x) (reading_timestamp r)"
      by auto
    from fin have "js_le (reading_timestamp r) (reading_timestamp r)"
      by auto
    with rest vs show "r \<in> set (vitalSigns s)
             \<and> (\<forall>x \<in> set (vitalSigns s).
                   js_le (reading_timestamp x) (reading_timestamp r))"
      by simp
  qed
  from calls q none head newest show ?thesis
    by blast
qed

text \<open>
  The request after the entries at 5000 and 6000, which carries the second of the two
  readings, and the request on the empty store.
\<close>

theorem handleSubmitQuestion_latest_vitals_witness:
  "entered_in_order 6000 (vitalSigns two_entries_state)
   \<and> vitalSigns two_entries_state = [heartRate_reading 6000, heartRate_reading 5000]
   \<and> map in_vitalSigns
        (ai_calls (handleSubmitQuestion answers_plainly tick ''Is 72 bpm fine?'' two_entries_state))
       = [Some (heartRate_reading 6000)]
   \<and> js_le (reading_timestamp (heartRate_reading 5000)) (reading_timestamp (heartRate_reading 6000))
   \<and> heartRate_reading 5000 \<noteq> heartRate_reading 6000
   \<and> map in_vitalSigns
        (ai_calls (handleSubmitQuestion answers_plainly tick ''Is 72 bpm fine?'' (initial_state 0)))
       = [None]"
proof -
  have item: "selectedVitalType typed_heartRate \<in> set vitalSignsLabels_keys"
    by (simp add: typed_heartRate_def vitalSignsLabels_keys_def)
  have init: "vitalSigns (initial_state 0) = []" "ai_calls (initial_state 0) = []"
    by (simp_all add: initial_state_def)
  have r0: "entered_in_order 0 (vitalSigns (initial_state 0))"
    unfolding init by (rule entered_in_order.start_in_order)
  have r1: "entered_in_order 5000
              (vitalSigns (snd (handleManualEntry 5000 (typed_heartRate, initial_state 0))))"
    by (rule entered_in_order.entry_in_order [OF r0 _ item]) simp
  have r2: "entered_in_order 6000 (vitalSigns two_entries_state)"
    unfolding two_entries_state_def by (rule entered_in_order.entry_in_order [OF r1 _ item]) simp
  have store: "vitalSigns two_entries_state = [heartRate_reading 6000, heartRate_reading 5000]"
    and calls: "ai_calls two_entries_state = []"
    by (simp_all add: two_entries_state_def heartRate_entry init)
  from handleSubmitQuestion_latest_vitals
         [of answers_plainly tick "''Is 72 bpm fine?''" two_entries_state 6000]
  obtain input where
    c: "ai_calls (handleSubmitQuestion answers_plainly tick ''Is 72 bpm fine?'' two_entries_state)
          = ai_calls two_entries_state @ [input]"
    and h: "\<forall>r older. vitalSigns two_entries_state = r # older \<longrightarrow> in_vitalSigns input = Some r"
    and m: "entered_in_order 6000 (vitalSigns two_entries_state) \<longrightarrow>
          (\<forall>r. in_vitalSigns input = Some r \<longrightarrow>
             r \<in> set (vitalSigns two_entries_state)
             \<and> (\<forall>x \<in> set (vitalSigns two_entries_state).
                   js_le (reading_timestamp x) (reading_timestamp r)))"
    by blast
  from h store have sent: "in_vitalSigns input = Some (heartRate_reading 6000)"
    by simp
  with c calls have a: "map in_vitalSigns
        (ai_calls (handleSubmitQuestion answers_plainly tick ''Is 72 bpm fine?'' two_entries_state))
       = [Some (heartRate_reading 6000)]"
    by simp
  from m r2 sent store
  have le: "js_le (reading_timestamp (heartRate_reading 5000)) (reading_timestamp (heartRate_reading 6000))"
    by simp
  have "heartRate_reading 5000 Timestamp \<noteq> heartRate_reading 6000 Timestamp"
    by (simp add: heartRate_reading_def)
  then have ne: "heartRate_reading 5000 \<noteq> heartRate_reading 6000"
    by metis
  from handleSubmitQuestion_latest_vitals
         [of answers_plainly tick "''Is 72 bpm fine?''" "initial_state 0" 0] init
  have b: "map in_vitalSigns
        (ai_calls (handleSubmitQuestion answers_plainly tick ''Is 72 bpm fine?'' (initial_state 0)))
       = [None]"
    by auto
  from r2 store a le ne b show ?thesis
    by simp
qed

section \<open>No pending turn is left between handlers\<close>

text \<open>
  The page starts without a pending turn, and every handler that has run to completion
  leaves it without one. So the id of a new pending turn is never already in the list.
\<close>

lemma loading_id_no_pending:
  "no_pending s \<Longrightarrow> \<forall>m \<in> set (messages s). msg_id m \<noteq> ''ai-loading-'' @ x"
  by (auto simp add: no_pending_def is_loading_id_def list_all_iff)

lemma no_pending_initial: "no_pending (initial_state t0)"
  by (simp add: no_pending_def is_loading_id_def example_defs mk_message_def)

lemma no_pending_handleFeedback:
  "no_pending s \<Longrightarrow> no_pending (handleFeedback mid fb s)"
  by (auto simp add: no_pending_def handleFeedback_def setMessages_def list_all_iff)

lemma no_pending_handleSubmitQuestion:
  "no_pending s \<Longrightarrow> no_pending (handleSubmitQuestion ai clk question s)"
  by (simp add: no_pending_def is_loading_id_def submit_defs list_all_iff
        split: ai_outcome.split option.split)

lemma no_pending_handleSaveProfile:
  "no_pending s \<Longrightarrow> no_pending (handleSaveProfile serialisations_differ ai clk newProfileData s)"
  by (simp add: no_pending_def is_loading_id_def save_defs list_all_iff
        split: ai_outcome.split option.split)

lemma no_pending_handleCloseProfileModal:
  "no_pending s \<Longrightarrow> no_pending (handleCloseProfileModal clk s)"
  by (simp add: no_pending_def is_loading_id_def handleCloseProfileModal_def setMessages_def
        mk_message_def Let_def list_all_iff split: option.split)

lemma no_pending_handleManualEntry:
  "no_pending s \<Longrightarrow> no_pending (snd (handleManualEntry now (t, s)))"
  by (simp add: no_pending_def handleManualEntry_def handleVitalSignsUpdate_def show_toast_def
        Let_def)

end
